theory Spec2Isabelle
  imports
    Complex_Main
    "HOL-Library.Multiset"
    "HOL-Library.Char_ord"
    "HOL-Library.List_Lexorder"
begin

section \<open>The Lambda function write\_timestamp\_calculate\_risk\<close>

text \<open>
  A shallow embedding of \<^verbatim>\<open>src/AWS Code/write_timestamp_calculate_risk.py\<close>.

  Conventions of the model.
  \<^item> The event is the JSON document decoded by the runtime: a dictionary from field names to
    JSON scalars. JSON arrays and objects as field values are outside the model.
  \<^item> Python floats and \<^verbatim>\<open>decimal.Decimal\<close> values are idealised as real numbers: the
    rounding of binary floating point and of the decimal context is not modelled, nor are
    overflow, infinities and NaN; what is kept is which of the two Python types a value has
    (Python refuses to mix them in arithmetic). Python ints are unbounded integers.
  \<^item> Every Python exception the handler's own code can raise (a missing key, an operand of
    the wrong type, a string that is no decimal literal, a float handed to the DynamoDB
    serialiser) is a value of type \<open>error\<close>.
  \<^item> The two DynamoDB tables are explicit state. The operations on them succeed as the
    service documents them; a request rejected by the service and transport failures are
    outside the model.
\<close>

subsection \<open>Values\<close>

datatype error = KeyError | TypeError | InvalidOperation

text \<open>A field of the decoded event.\<close>

datatype json = JNull | JBool bool | JInt int | JFloat real | JStr string

type_synonym event = "string \<rightharpoonup> json"

text \<open>
  An attribute value as DynamoDB stores it and as a scan hands it back to Python:
  \<open>N r\<close> is a number (a \<^verbatim>\<open>Decimal\<close> in Python), \<open>S\<close> a string, \<open>BOOL\<close> a boolean and
  \<open>NULL\<close> is \<^verbatim>\<open>None\<close>.
\<close>

datatype attr = NULL | BOOL bool | N real | S string

type_synonym item = "string \<rightharpoonup> attr"

text \<open>
  The result of a Python division in the risk computation: a float or a \<^verbatim>\<open>Decimal\<close>.
\<close>

datatype pynum = Flt real | Dec real

text \<open>
  The two tables. \<open>entries\<close> lists the items of the table \<^verbatim>\<open>entries\<close> in the order in which
  a scan walks them; \<open>devices\<close> maps the key attribute \<^verbatim>\<open>deviceID\<close> to the item of the table
  \<^verbatim>\<open>devices\<close>.
\<close>

record store =
  entries :: "item list"
  devices :: "attr \<rightharpoonup> item"

subsection \<open>Python operations used by the handler\<close>

definition rbind :: "error + 'a \<Rightarrow> ('a \<Rightarrow> error + 'b) \<Rightarrow> error + 'b" where
  "rbind m f = (case m of Inl e \<Rightarrow> Inl e | Inr v \<Rightarrow> f v)"

text \<open>\<^verbatim>\<open>d[k]\<close>: raises KeyError when the key is missing.\<close>

definition getitem :: "(string \<rightharpoonup> 'v) \<Rightarrow> string \<Rightarrow> error + 'v" where
  "getitem d k = (case d k of None \<Rightarrow> Inl KeyError | Some v \<Rightarrow> Inr v)"

text \<open>
  \<^verbatim>\<open>v == n\<close> for an integer literal \<open>n\<close>: numbers compare by value across int, float and
  bool (\<^verbatim>\<open>True == 1\<close>, \<^verbatim>\<open>-1.0 == -1\<close>); None and strings are never equal to a number.
\<close>

fun py_eq_int :: "json \<Rightarrow> int \<Rightarrow> bool" where
  "py_eq_int JNull n = False"
| "py_eq_int (JBool b) n = ((if b then 1 else 0) = n)"
| "py_eq_int (JInt i) n = (i = n)"
| "py_eq_int (JFloat r) n = (r = of_int n)"
| "py_eq_int (JStr s) n = False"

text \<open>
  The conversion of an operand of \<^verbatim>\<open>math.atan2\<close>, of unary minus, and of \<^verbatim>\<open>*\<close> between
  numbers: int, bool and float are accepted, None and strings raise TypeError.
\<close>

fun to_float :: "json \<Rightarrow> error + real" where
  "to_float JNull = Inl TypeError"
| "to_float (JBool b) = Inr (if b then 1 else 0)"
| "to_float (JInt i) = Inr (of_int i)"
| "to_float (JFloat r) = Inr r"
| "to_float (JStr s) = Inl TypeError"

text \<open>
  \<^verbatim>\<open>math.atan2(y, x)\<close>, by the definition of the C library function on real arguments.
\<close>

definition atan2 :: "real \<Rightarrow> real \<Rightarrow> real" where
  "atan2 y x =
     (if 0 < x then arctan (y / x)
      else if x < 0 then (if 0 \<le> y then arctan (y / x) + pi else arctan (y / x) - pi)
      else if 0 < y then pi / 2
      else if y < 0 then - (pi / 2)
      else 0)"

text \<open>\<^verbatim>\<open>round(x)\<close> of Python 3 on a float: the nearest integer, a tie goes to the even one.\<close>

definition py_round :: "real \<Rightarrow> int" where
  "py_round x =
     (let f = \<lfloor>x\<rfloor>; r = x - of_int f
      in if r < 1 / 2 then f
         else if 1 / 2 < r then f + 1
         else if even f then f else f + 1)"

text \<open>
  \<^verbatim>\<open>decimal.Decimal(repr(v))\<close>: the repr of an int or a float is a decimal literal; the
  repr of None, of a bool (\<^verbatim>\<open>'True'\<close>) and of a string (it keeps its quotes) is none, and
  the constructor raises \<^verbatim>\<open>decimal.InvalidOperation\<close>.
\<close>

fun decimal_repr :: "json \<Rightarrow> error + attr" where
  "decimal_repr JNull = Inl InvalidOperation"
| "decimal_repr (JBool b) = Inl InvalidOperation"
| "decimal_repr (JInt i) = Inr (N (of_int i))"
| "decimal_repr (JFloat r) = Inr (N r)"
| "decimal_repr (JStr s) = Inl InvalidOperation"

text \<open>
  The serialiser of the DynamoDB resource client, applied to every value handed to
  \<^verbatim>\<open>put_item\<close>, to a filter condition or to a key: a Python float raises TypeError
  (floats are not supported, which is why the handler converts them to Decimal).
\<close>

fun serialize :: "json \<Rightarrow> error + attr" where
  "serialize JNull = Inr NULL"
| "serialize (JBool b) = Inr (BOOL b)"
| "serialize (JInt i) = Inr (N (of_int i))"
| "serialize (JFloat r) = Inl TypeError"
| "serialize (JStr s) = Inr (S s)"

text \<open>\<^verbatim>\<open>v / n\<close> for a field of the event and an integer literal: true division, a float.\<close>

definition truediv_json :: "json \<Rightarrow> int \<Rightarrow> error + real" where
  "truediv_json v n = rbind (to_float v) (\<lambda>r. Inr (r / of_int n))"

text \<open>
  \<^verbatim>\<open>v / n\<close> for an attribute of a scanned item: a Decimal divided by an int is a Decimal,
  a bool divided by an int is a float, None and strings raise TypeError.
\<close>

fun truediv_attr :: "attr \<Rightarrow> int \<Rightarrow> error + pynum" where
  "truediv_attr NULL n = Inl TypeError"
| "truediv_attr (BOOL b) n = Inr (Flt ((if b then 1 else 0) / of_int n))"
| "truediv_attr (N r) n = Inr (Dec (r / of_int n))"
| "truediv_attr (S s) n = Inl TypeError"

text \<open>Arithmetic on the results: float with float, Decimal with Decimal, a mix raises.\<close>

fun num_add :: "pynum \<Rightarrow> pynum \<Rightarrow> error + pynum" where
  "num_add (Flt a) (Flt b) = Inr (Flt (a + b))"
| "num_add (Dec a) (Dec b) = Inr (Dec (a + b))"
| "num_add (Flt a) (Dec b) = Inl TypeError"
| "num_add (Dec a) (Flt b) = Inl TypeError"

fun num_sub :: "pynum \<Rightarrow> pynum \<Rightarrow> error + pynum" where
  "num_sub (Flt a) (Flt b) = Inr (Flt (a - b))"
| "num_sub (Dec a) (Dec b) = Inr (Dec (a - b))"
| "num_sub (Flt a) (Dec b) = Inl TypeError"
| "num_sub (Dec a) (Flt b) = Inl TypeError"

fun num_half :: "pynum \<Rightarrow> pynum" where
  "num_half (Flt a) = Flt (a / 2)"
| "num_half (Dec a) = Dec (a / 2)"

fun num_abs :: "pynum \<Rightarrow> pynum" where
  "num_abs (Flt a) = Flt \<bar>a\<bar>"
| "num_abs (Dec a) = Dec \<bar>a\<bar>"

text \<open>\<^verbatim>\<open>d * k\<close> where \<open>k\<close> is a Decimal: a float \<open>d\<close> raises TypeError.\<close>

fun mul_decimal :: "pynum \<Rightarrow> real \<Rightarrow> error + real" where
  "mul_decimal (Flt a) k = Inl TypeError"
| "mul_decimal (Dec a) k = Inr (a * k)"

subsection \<open>The tables\<close>

text \<open>
  Modelled from the spec: the key schema of the table \<^verbatim>\<open>entries\<close> is not in the source;
  the spec names \<^verbatim>\<open>entryUUID\<close> as its primary key.

  \<^verbatim>\<open>put_item\<close> creates a new item or replaces the item that has the same primary key.
  A new item is placed at the end of the scan order.
\<close>

definition same_key :: "item \<Rightarrow> item \<Rightarrow> bool" where
  "same_key a b = (a ''entryUUID'' = b ''entryUUID'')"

definition put_item :: "item \<Rightarrow> item list \<Rightarrow> item list" where
  "put_item it es =
     (if list_ex (same_key it) es
      then map (\<lambda>e. if same_key it e then it else e) es
      else es @ [it])"

text \<open>
  \<^verbatim>\<open>scan(Limit=10, FilterExpression=Attr('deviceID').eq(dev) & Attr('status').eq(0))\<close>:
  the service evaluates at most \<^verbatim>\<open>Limit\<close> items, in its own order, and returns those of
  them that satisfy the filter.
\<close>

definition matches :: "attr \<Rightarrow> item \<Rightarrow> bool" where
  "matches dev it = (it ''deviceID'' = Some dev \<and> it ''status'' = Some (N 0))"

definition scan :: "item list \<Rightarrow> attr \<Rightarrow> item list" where
  "scan es dev = filter (matches dev) (take 10 es)"

text \<open>
  \<^verbatim>\<open>update_item(Key={'deviceID': dev}, UpdateExpression='SET riskFactor = :v1,
  lastUpdated = :v2')\<close>: sets the two attributes of the item with that key and creates the
  item, with its key attribute, when there is none.
\<close>

definition update_item :: "attr \<Rightarrow> attr \<Rightarrow> attr \<Rightarrow> (attr \<rightharpoonup> item) \<Rightarrow> (attr \<rightharpoonup> item)" where
  "update_item dev v1 v2 ds =
     ds(dev \<mapsto> (case ds dev of None \<Rightarrow> [''deviceID'' \<mapsto> dev] | Some it \<Rightarrow> it)
                 (''riskFactor'' \<mapsto> v1, ''lastUpdated'' \<mapsto> v2))"

subsection \<open>Sorting the sample\<close>

text \<open>
  \<^verbatim>\<open>array.sort(key=lambda x: x['createdDate'], reverse=False)\<close>. The keys are computed
  first (KeyError on an item without the attribute). The sort is stable. Numbers (and
  bools) compare by value and strings by code point; with two or more items, a None
  among the keys or a mix of strings and numbers raises TypeError.
\<close>

fun is_num :: "attr \<Rightarrow> bool" where
  "is_num (N r) = True"
| "is_num (BOOL b) = True"
| "is_num a = False"

fun is_str :: "attr \<Rightarrow> bool" where
  "is_str (S s) = True"
| "is_str a = False"

definition created_num :: "item \<Rightarrow> real" where
  "created_num it =
     (case it ''createdDate'' of Some (N r) \<Rightarrow> r | Some (BOOL b) \<Rightarrow> (if b then 1 else 0) | _ \<Rightarrow> 0)"

definition created_str :: "item \<Rightarrow> string" where
  "created_str it = (case it ''createdDate'' of Some (S s) \<Rightarrow> s | _ \<Rightarrow> [])"

definition has_created :: "(attr \<Rightarrow> bool) \<Rightarrow> item \<Rightarrow> bool" where
  "has_created p it = (case it ''createdDate'' of None \<Rightarrow> False | Some a \<Rightarrow> p a)"

definition sort_created :: "item list \<Rightarrow> error + item list" where
  "sort_created array =
     (if \<not> list_all (has_created (\<lambda>a. True)) array then Inl KeyError
      else if length array < 2 then Inr array
      else if list_all (has_created is_num) array then Inr (sort_key created_num array)
      else if list_all (has_created is_str) array then Inr (sort_key created_str array)
      else Inl TypeError)"

subsection \<open>The handler\<close>

text \<open>
  Lines 32 to 36 of \<^verbatim>\<open>lambda_handler\<close>: the axes are read with \<open>y\<close> and \<open>z\<close> swapped, then
  \<^verbatim>\<open>roll = round(abs(math.atan2(y, z))*57.3)\<close> and
  \<^verbatim>\<open>pitch = round(abs(math.atan2(-x, math.sqrt(y*y + z*z)))*57.3)\<close>.
\<close>

definition derive_angles :: "event \<Rightarrow> error + int \<times> int" where
  "derive_angles event =
     rbind (getitem event ''accl_x'') (\<lambda>x.
     rbind (getitem event ''accl_z'') (\<lambda>y.
     rbind (getitem event ''accl_y'') (\<lambda>z.
     rbind (to_float y) (\<lambda>yf.
     rbind (to_float z) (\<lambda>zf.
     let roll = py_round (\<bar>atan2 yf zf\<bar> * 57.3) in
     rbind (to_float x) (\<lambda>xf.
     let pitch = py_round (\<bar>atan2 (- xf) (sqrt (yf * yf + zf * zf))\<bar> * 57.3) in
     Inr (roll, pitch)))))))"

text \<open>
  \<^verbatim>\<open>insert_entry\<close>. The item is built first, in the order of the dictionary display; the
  serialiser then walks it in the same order; the write is the last step, so an exception
  leaves the table as it was.
\<close>

definition insert_entry :: "event \<Rightarrow> int \<Rightarrow> int \<Rightarrow> int \<Rightarrow> store \<Rightarrow> error + store" where
  "insert_entry event roll pitch timestamp s =
     rbind (getitem event ''status'') (\<lambda>st.
     if py_eq_int st (- 1) then
       rbind (getitem event ''entryUUID'') (\<lambda>uuid.
       rbind (getitem event ''deviceID'') (\<lambda>dev.
       rbind (serialize uuid) (\<lambda>a_uuid.
       rbind (serialize st) (\<lambda>a_st.
       rbind (serialize dev) (\<lambda>a_dev.
       Inr (s\<lparr>entries := put_item
             [''entryUUID'' \<mapsto> a_uuid, ''status'' \<mapsto> a_st, ''deviceID'' \<mapsto> a_dev,
              ''createdDate'' \<mapsto> N (of_int timestamp)] (entries s)\<rparr>))))))
     else if py_eq_int st 0 then
       rbind (getitem event ''entryUUID'') (\<lambda>uuid.
       rbind (getitem event ''deviceID'') (\<lambda>dev.
       rbind (rbind (getitem event ''accl_x'') decimal_repr) (\<lambda>ax.
       rbind (rbind (getitem event ''accl_y'') decimal_repr) (\<lambda>ay.
       rbind (rbind (getitem event ''accl_z'') decimal_repr) (\<lambda>az.
       rbind (rbind (getitem event ''gyro_x'') decimal_repr) (\<lambda>gx.
       rbind (rbind (getitem event ''gyro_y'') decimal_repr) (\<lambda>gy.
       rbind (rbind (getitem event ''gyro_z'') decimal_repr) (\<lambda>gz.
       rbind (getitem event ''rain'') (\<lambda>rain.
       rbind (getitem event ''soil'') (\<lambda>soil.
       rbind (serialize uuid) (\<lambda>a_uuid.
       rbind (serialize st) (\<lambda>a_st.
       rbind (serialize dev) (\<lambda>a_dev.
       rbind (serialize rain) (\<lambda>a_rain.
       rbind (serialize soil) (\<lambda>a_soil.
       Inr (s\<lparr>entries := put_item
             [''entryUUID'' \<mapsto> a_uuid, ''status'' \<mapsto> a_st, ''deviceID'' \<mapsto> a_dev,
              ''accl_x'' \<mapsto> ax, ''accl_y'' \<mapsto> ay, ''accl_z'' \<mapsto> az,
              ''gyro_x'' \<mapsto> gx, ''gyro_y'' \<mapsto> gy, ''gyro_z'' \<mapsto> gz,
              ''roll'' \<mapsto> N (of_int roll), ''pitch'' \<mapsto> N (of_int pitch),
              ''rain'' \<mapsto> a_rain, ''soil'' \<mapsto> a_soil,
              ''createdDate'' \<mapsto> N (of_int timestamp)] (entries s)\<rparr>))))))))))))))))
     else Inr s)"

text \<open>
  \<^verbatim>\<open>k = soil/1023 + (roll/180 + pitch/90)/2\<close> on an item of the sample (lines 92 and 95),
  evaluated left to right.
\<close>

definition k_item :: "item \<Rightarrow> error + pynum" where
  "k_item it =
     rbind (getitem it ''soil'') (\<lambda>soil.
     rbind (truediv_attr soil 1023) (\<lambda>a.
     rbind (getitem it ''roll'') (\<lambda>roll.
     rbind (truediv_attr roll 180) (\<lambda>b.
     rbind (getitem it ''pitch'') (\<lambda>pitch.
     rbind (truediv_attr pitch 90) (\<lambda>c.
     rbind (num_add b c) (\<lambda>bc.
     num_add a (num_half bc))))))))"

text \<open>
  Line 101: \<^verbatim>\<open>k = decimal.Decimal(repr(event['soil']/1023 + (roll/180 + pitch/90)/2))\<close>.
  The divisions are float divisions (\<open>roll\<close> and \<open>pitch\<close> are ints), and the repr of a float
  is a decimal literal.
\<close>

definition k_event :: "event \<Rightarrow> int \<Rightarrow> int \<Rightarrow> error + real" where
  "k_event event roll pitch =
     rbind (getitem event ''soil'') (\<lambda>soil.
     rbind (truediv_json soil 1023) (\<lambda>a.
     Inr (a + (of_int roll / 180 + of_int pitch / 90) / 2)))"

text \<open>Lines 89 to 106: the risk factor from the scanned sample.\<close>

definition risk_of_sample :: "event \<Rightarrow> int \<Rightarrow> int \<Rightarrow> item list \<Rightarrow> error + real" where
  "risk_of_sample event roll pitch array =
     (if 2 < length array then
        rbind (sort_created array) (\<lambda>sorted.
        rbind (k_item (sorted ! 0)) (\<lambda>k1.
        rbind (k_item (sorted ! 1)) (\<lambda>k2.
        rbind (num_sub k1 k2) (\<lambda>diff.
        let d = num_abs diff in
        rbind (k_event event roll pitch) (\<lambda>k.
        mul_decimal d k)))))
      else Inr 0)"

text \<open>
  \<^verbatim>\<open>calculate_riskfactor\<close>. The update of the table \<^verbatim>\<open>devices\<close> is the last step, so an
  exception leaves both tables as they were.
\<close>

definition calculate_riskfactor :: "event \<Rightarrow> int \<Rightarrow> int \<Rightarrow> int \<Rightarrow> store \<Rightarrow> error + store" where
  "calculate_riskfactor event roll pitch timestamp s =
     rbind (getitem event ''status'') (\<lambda>st.
     if \<not> py_eq_int st 0 then Inr s
     else
       rbind (getitem event ''deviceID'') (\<lambda>device_id.
       rbind (serialize device_id) (\<lambda>dev.
       let array = scan (entries s) dev in
       rbind (risk_of_sample event roll pitch array) (\<lambda>risk_factor.
       Inr (s\<lparr>devices := update_item dev (N risk_factor) (N (of_int timestamp)) (devices s)\<rparr>)))))"

text \<open>
  \<^verbatim>\<open>lambda_handler\<close>, with the timestamp of line 25 as a parameter. The result is the store
  after the invocation and the exception that ended it, if any: an exception in
  \<^verbatim>\<open>calculate_riskfactor\<close> leaves the entry written by \<^verbatim>\<open>insert_entry\<close> in place.
\<close>

definition lambda_handler :: "int \<Rightarrow> event \<Rightarrow> store \<Rightarrow> store \<times> error option" where
  "lambda_handler epochtime event s =
     (case derive_angles event of
        Inl e \<Rightarrow> (s, Some e)
      | Inr (roll, pitch) \<Rightarrow>
          (case insert_entry event roll pitch epochtime s of
             Inl e \<Rightarrow> (s, Some e)
           | Inr s1 \<Rightarrow>
               (case calculate_riskfactor event roll pitch epochtime s1 of
                  Inl e \<Rightarrow> (s1, Some e)
                | Inr s2 \<Rightarrow> (s2, None))))"

subsection \<open>Reading the tables\<close>

text \<open>The attribute \<open>f\<close> of the device row with key \<open>dev\<close>, if the row and the attribute exist.\<close>

definition device_attr :: "store \<Rightarrow> attr \<Rightarrow> string \<Rightarrow> attr option" where
  "device_attr s dev f = (case devices s dev of None \<Rightarrow> None | Some row \<Rightarrow> row f)"

text \<open>The numeric attributes of an entry: present and a number, and their value.\<close>

definition has_N :: "item \<Rightarrow> string \<Rightarrow> bool" where
  "has_N it f = (case it f of Some (N r) \<Rightarrow> True | _ \<Rightarrow> False)"

definition attr_num :: "item \<Rightarrow> string \<Rightarrow> real" where
  "attr_num it f = (case it f of Some (N r) \<Rightarrow> r | _ \<Rightarrow> 0)"

text \<open>
  An entry as the Entry Writer stores it for a numeric soil reading: its timestamp, soil,
  roll and pitch are numbers.
\<close>

definition entry_ok :: "item \<Rightarrow> bool" where
  "entry_ok it =
     (has_N it ''createdDate'' \<and> has_N it ''soil'' \<and> has_N it ''roll'' \<and> has_N it ''pitch'')"

subsection \<open>The formulas of the specification\<close>

text \<open>
  The composite feature of the specification, in its words:
  \<open>k = soil/1023 + (roll/180 + pitch/90)/2\<close>.
\<close>

definition spec_k :: "real \<Rightarrow> real \<Rightarrow> real \<Rightarrow> real" where
  "spec_k soil roll pitch = soil / 1023 + (roll / 180 + pitch / 90) / 2"

definition spec_k_item :: "item \<Rightarrow> real" where
  "spec_k_item it = spec_k (attr_num it ''soil'') (attr_num it ''roll'') (attr_num it ''pitch'')"



subsection \<open>Example data\<close>

text \<open>A stored reading with status OK, and events of device \<open>D1\<close> lying flat.\<close>

definition ok_entry :: "string \<Rightarrow> string \<Rightarrow> real \<Rightarrow> real \<Rightarrow> real \<Rightarrow> real \<Rightarrow> item" where
  "ok_entry uuid dev soil roll pitch created =
     [''entryUUID'' \<mapsto> S uuid, ''status'' \<mapsto> N 0, ''deviceID'' \<mapsto> S dev,
      ''accl_x'' \<mapsto> N 0, ''accl_y'' \<mapsto> N 1, ''accl_z'' \<mapsto> N 0,
      ''gyro_x'' \<mapsto> N 0, ''gyro_y'' \<mapsto> N 0, ''gyro_z'' \<mapsto> N 0,
      ''roll'' \<mapsto> N roll, ''pitch'' \<mapsto> N pitch, ''rain'' \<mapsto> N 0, ''soil'' \<mapsto> N soil,
      ''createdDate'' \<mapsto> N created]"

definition ev_ok :: "string \<Rightarrow> event" where
  "ev_ok uuid =
     [''entryUUID'' \<mapsto> JStr uuid, ''status'' \<mapsto> JInt 0, ''deviceID'' \<mapsto> JStr ''D1'',
      ''accl_x'' \<mapsto> JFloat 0, ''accl_y'' \<mapsto> JFloat 1, ''accl_z'' \<mapsto> JFloat 0,
      ''gyro_x'' \<mapsto> JFloat 0, ''gyro_y'' \<mapsto> JFloat 0, ''gyro_z'' \<mapsto> JFloat 0,
      ''rain'' \<mapsto> JInt 0, ''soil'' \<mapsto> JInt 500]"

text \<open>
  The event of the end-to-end scenario of the specification: soil 500, and axes that give
  roll 90 and pitch 45.
\<close>

definition ev_scenario :: event where
  "ev_scenario =
     [''entryUUID'' \<mapsto> JStr ''u4'', ''status'' \<mapsto> JInt 0, ''deviceID'' \<mapsto> JStr ''D1'',
      ''accl_x'' \<mapsto> JFloat 1, ''accl_y'' \<mapsto> JFloat 0, ''accl_z'' \<mapsto> JFloat 1,
      ''gyro_x'' \<mapsto> JFloat 0, ''gyro_y'' \<mapsto> JFloat 0, ''gyro_z'' \<mapsto> JFloat 0,
      ''rain'' \<mapsto> JInt 0, ''soil'' \<mapsto> JInt 500]"

definition ev_err :: event where
  "ev_err =
     [''entryUUID'' \<mapsto> JStr ''u7'', ''status'' \<mapsto> JInt (- 1), ''deviceID'' \<mapsto> JStr ''D1'',
      ''accl_x'' \<mapsto> JInt 0, ''accl_y'' \<mapsto> JInt 1, ''accl_z'' \<mapsto> JInt 0]"

definition ev_unknown :: event where
  "ev_unknown =
     [''entryUUID'' \<mapsto> JStr ''u9'', ''status'' \<mapsto> JInt 5, ''deviceID'' \<mapsto> JStr ''D1'',
      ''accl_x'' \<mapsto> JInt 0, ''accl_y'' \<mapsto> JInt 1, ''accl_z'' \<mapsto> JInt 0]"

definition st_empty :: store where
  "st_empty = \<lparr>entries = [], devices = Map.empty\<rparr>"

definition st_dev :: store where
  "st_dev = \<lparr>entries = [],
     devices = [S ''D1'' \<mapsto> [''deviceID'' \<mapsto> S ''D1'', ''riskFactor'' \<mapsto> N (1 / 4),
                                ''lastUpdated'' \<mapsto> N 1, ''site'' \<mapsto> S ''slope'']]\<rparr>"

definition st_one :: store where
  "st_one = \<lparr>entries = [ok_entry ''u1'' ''D1'' 100 10 5 1], devices = Map.empty\<rparr>"

definition st_two :: store where
  "st_two = \<lparr>entries = [ok_entry ''u1'' ''D1'' 100 10 5 1, ok_entry ''u2'' ''D1'' 200 20 10 2],
     devices = Map.empty\<rparr>"

definition st_three :: store where
  "st_three = \<lparr>entries = [ok_entry ''u3'' ''D1'' 900 170 80 3, ok_entry ''u1'' ''D1'' 100 10 5 1,
                           ok_entry ''u2'' ''D1'' 200 20 10 2],
     devices = [S ''D1'' \<mapsto> [''deviceID'' \<mapsto> S ''D1'', ''riskFactor'' \<mapsto> N (1 / 4),
                                ''lastUpdated'' \<mapsto> N 1, ''site'' \<mapsto> S ''slope'']]\<rparr>"

text \<open>
  The entry that the handler writes for the event of the scenario at time 4, and the store
  \<open>st_three\<close> with that entry added.
\<close>

definition entry_scenario :: item where
  "entry_scenario =
     [''entryUUID'' \<mapsto> S ''u4'', ''status'' \<mapsto> N 0, ''deviceID'' \<mapsto> S ''D1'',
      ''accl_x'' \<mapsto> N 1, ''accl_y'' \<mapsto> N 0, ''accl_z'' \<mapsto> N 1,
      ''gyro_x'' \<mapsto> N 0, ''gyro_y'' \<mapsto> N 0, ''gyro_z'' \<mapsto> N 0,
      ''roll'' \<mapsto> N 90, ''pitch'' \<mapsto> N 45, ''rain'' \<mapsto> N 0, ''soil'' \<mapsto> N 500,
      ''createdDate'' \<mapsto> N 4]"

definition st_four :: store where
  "st_four = st_three\<lparr>entries := entries st_three @ [entry_scenario]\<rparr>"

section \<open>Basic facts\<close>

lemma rbind_Inr [simp]: "rbind (Inr v) f = f v"
  by (simp add: rbind_def)

lemma rbind_Inl [simp]: "rbind (Inl e) f = Inl e"
  by (simp add: rbind_def)

lemma rbind_eq_Inr: "rbind m f = Inr y \<longleftrightarrow> (\<exists>v. m = Inr v \<and> f v = Inr y)"
  by (cases m) simp_all

lemma getitem_Some [simp]: "d k = Some v \<Longrightarrow> getitem d k = Inr v"
  by (simp add: getitem_def)

lemma getitem_None [simp]: "d k = None \<Longrightarrow> getitem d k = Inl KeyError"
  by (simp add: getitem_def)

lemma getitem_eq_Inr: "getitem d k = Inr v \<longleftrightarrow> d k = Some v"
  by (simp add: getitem_def split: option.split)


lemma py_eq_int_unique: "py_eq_int v a \<Longrightarrow> py_eq_int v b \<Longrightarrow> a = b"
  by (cases v) (auto split: if_splits)

text \<open>What a successful angle computation has read and computed.\<close>

lemma derive_angles_InrD:
  assumes "derive_angles event = Inr (roll, pitch)"
  shows "\<exists>vx vy vz x y z.
           event ''accl_x'' = Some vx \<and> event ''accl_z'' = Some vy \<and> event ''accl_y'' = Some vz
         \<and> to_float vx = Inr x \<and> to_float vy = Inr y \<and> to_float vz = Inr z
         \<and> roll = py_round (\<bar>atan2 y z\<bar> * 57.3)
         \<and> pitch = py_round (\<bar>atan2 (- x) (sqrt (y * y + z * z))\<bar> * 57.3)"
  using assms unfolding derive_angles_def
  by (auto simp: rbind_eq_Inr getitem_eq_Inr Let_def)

text \<open>The example events lie flat: roll and pitch are 0.\<close>

lemma derive_ev_ok: "derive_angles (ev_ok u) = Inr (0, 0)"
  by (simp add: derive_angles_def ev_ok_def atan2_def py_round_def)

lemma derive_ev_err: "derive_angles ev_err = Inr (0, 0)"
  by (simp add: derive_angles_def ev_err_def atan2_def py_round_def)

text \<open>The two branches of \<^verbatim>\<open>calculate_riskfactor\<close> on the status.\<close>

lemma calculate_riskfactor_not_ok:
  assumes "event ''status'' = Some st" and "\<not> py_eq_int st 0"
  shows "calculate_riskfactor event roll pitch timestamp s = Inr s"
  using assms by (simp add: calculate_riskfactor_def)

lemma calculate_riskfactor_ok:
  assumes "event ''status'' = Some st" and "py_eq_int st 0"
    and "event ''deviceID'' = Some device_id" and "serialize device_id = Inr dev"
  shows "calculate_riskfactor event roll pitch timestamp s =
           rbind (risk_of_sample event roll pitch (scan (entries s) dev)) (\<lambda>risk_factor.
             Inr (s\<lparr>devices := update_item dev (N risk_factor) (N (of_int timestamp)) (devices s)\<rparr>))"
  using assms by (simp add: calculate_riskfactor_def)

lemma risk_of_sample_short: "length array < 3 \<Longrightarrow> risk_of_sample event roll pitch array = Inr 0"
  by (simp add: risk_of_sample_def)

text \<open>The entry that \<^verbatim>\<open>insert_entry\<close> writes for a sensor error.\<close>

lemma insert_entry_sensor_error:
  assumes "event ''status'' = Some st" and "py_eq_int st (- 1)"
    and "insert_entry event roll pitch timestamp s = Inr s'"
  shows "\<exists>uuid dev a_uuid a_st a_dev.
           event ''entryUUID'' = Some uuid \<and> event ''deviceID'' = Some dev
         \<and> serialize uuid = Inr a_uuid \<and> serialize st = Inr a_st \<and> serialize dev = Inr a_dev
         \<and> s' = s\<lparr>entries := put_item
             [''entryUUID'' \<mapsto> a_uuid, ''status'' \<mapsto> a_st, ''deviceID'' \<mapsto> a_dev,
              ''createdDate'' \<mapsto> N (of_int timestamp)] (entries s)\<rparr>"
  using assms unfolding insert_entry_def
  by (auto simp: rbind_eq_Inr getitem_eq_Inr)

lemma handler_ev_err: "snd (lambda_handler 9 ev_err st_dev) = None"
proof -
  have "\<exists>s1. insert_entry ev_err 0 0 9 st_dev = Inr s1
          \<and> calculate_riskfactor ev_err 0 0 9 s1 = Inr s1"
    by (simp add: insert_entry_def calculate_riskfactor_def ev_err_def)
  then show ?thesis
    by (auto simp: lambda_handler_def derive_ev_err)
qed

subsection \<open>Bounds on \<open>pi\<close>\<close>

text \<open>
  From the Maclaurin expansion of the sine at \<open>pi / 6\<close>, where the sine is \<open>1 / 2\<close>.
\<close>

lemma sin_coeff_values:
  "sin_coeff 0 = 0" "sin_coeff (Suc 0) = 1" "sin_coeff 2 = 0" "sin_coeff 3 = - 1 / 6" "sin_coeff 4 = 0"
  by (simp_all add: sin_coeff_def fact_numeral)

lemma sum_less_3: "(\<Sum>m<3. g m) = g 0 + g 1 + g 2" for g :: "nat \<Rightarrow> real"
  by (simp add: eval_nat_numeral)

lemma sum_less_5: "(\<Sum>m<5. g m) = g 0 + g 1 + g 2 + g 3 + g 4" for g :: "nat \<Rightarrow> real"
  by (simp add: eval_nat_numeral)

lemma sin_lower_cubic:
  fixes x :: real
  assumes "0 \<le> x"
  shows "x - x ^ 3 / 6 \<le> sin x"
proof -
  have "\<bar>sin x - (\<Sum>m<3. sin_coeff m * x ^ m)\<bar> \<le> inverse (fact 3) * \<bar>x\<bar> ^ 3"
    by (rule Maclaurin_sin_bound)
  then have "\<bar>sin x - x\<bar> \<le> x ^ 3 / 6"
    using assms by (simp add: sum_less_3 sin_coeff_values fact_numeral)
  then show ?thesis by linarith
qed

lemma sin_upper_quintic:
  fixes x :: real
  assumes "0 \<le> x"
  shows "sin x \<le> x - x ^ 3 / 6 + x ^ 5 / 120"
proof -
  have "\<bar>sin x - (\<Sum>m<5. sin_coeff m * x ^ m)\<bar> \<le> inverse (fact 5) * \<bar>x\<bar> ^ 5"
    by (rule Maclaurin_sin_bound)
  then have "\<bar>sin x - (x - x ^ 3 / 6)\<bar> \<le> x ^ 5 / 120"
    using assms by (simp add: sum_less_5 sin_coeff_values fact_numeral)
  then show ?thesis by linarith
qed

lemma cubic_step:
  fixes x b :: real
  assumes "0 < x" and "x \<le> b" and "x - x ^ 3 / 6 \<le> 1 / 2" and "b\<^sup>2 < 6"
  shows "x \<le> 1 / (2 * (1 - b\<^sup>2 / 6))"
proof -
  have "x * x \<le> b * b"
    using assms(1,2) by (intro mult_mono) auto
  then have "x * x * x \<le> b * b * x"
    using assms(1) by (intro mult_right_mono) auto
  then have "x ^ 3 \<le> b\<^sup>2 * x"
    by (simp add: power3_eq_cube power2_eq_square)
  then have "x * (1 - b\<^sup>2 / 6) \<le> 1 / 2"
    using assms(3) by (simp add: algebra_simps)
  moreover have "0 < 1 - b\<^sup>2 / 6"
    using assms(4) by simp
  ultimately show ?thesis
    by (simp add: field_simps)
qed

lemma pi_sixth_upper: "pi / 6 \<le> 525 / 1000"
proof -
  define x where "x = pi / 6"
  have pos: "0 < x" by (simp add: x_def)
  have "x - x ^ 3 / 6 \<le> sin x"
    using pos by (intro sin_lower_cubic) simp
  then have c: "x - x ^ 3 / 6 \<le> 1 / 2"
    by (simp add: x_def sin_30)
  have b0: "x \<le> 2 / 3"
    using pi_less_4 by (simp add: x_def)
  have b1: "x \<le> 54 / 100"
    using cubic_step [OF pos b0 c] by (simp add: power2_eq_square)
  have b2: "x \<le> 526 / 1000"
    using cubic_step [OF pos b1 c] by (simp add: power2_eq_square)
  have b3: "x \<le> 525 / 1000"
    using cubic_step [OF pos b2 c] by (simp add: power2_eq_square)
  then show ?thesis by (simp add: x_def)
qed

lemma pi_sixth_lower: "521 / 1000 \<le> pi / 6"
proof -
  define x where "x = pi / 6"
  have pos: "0 < x" by (simp add: x_def)
  have hi: "x \<le> 525 / 1000"
    using pi_sixth_upper by (simp add: x_def)
  have "sin x \<le> x"
    using pos by (intro sin_x_le_x) simp
  then have lo: "1 / 2 \<le> x"
    by (simp add: x_def sin_30)
  have "sin x \<le> x - x ^ 3 / 6 + x ^ 5 / 120"
    using pos by (intro sin_upper_quintic) simp
  then have q: "1 / 2 \<le> x - x ^ 3 / 6 + x ^ 5 / 120"
    by (simp add: x_def sin_30)
  have "(1 / 2) * (1 / 2) \<le> x * x"
    using lo by (intro mult_mono) auto
  then have "(1 / 2) * (1 / 2) * x \<le> x * x * x"
    using pos by (intro mult_right_mono) auto
  then have c3: "x / 4 \<le> x ^ 3"
    by (simp add: power3_eq_cube)
  have x2: "x * x \<le> (525 / 1000) * (525 / 1000)"
    using hi pos by (intro mult_mono) auto
  have "(x * x) * (x * x) \<le> ((525 / 1000) * (525 / 1000)) * ((525 / 1000) * (525 / 1000))"
    by (rule mult_mono) (use x2 pos in auto)
  then have "(x * x) * (x * x) * x
               \<le> ((525 / 1000) * (525 / 1000)) * ((525 / 1000) * (525 / 1000)) * x"
    using pos by (intro mult_right_mono) auto
  moreover have "x ^ 5 = (x * x) * (x * x) * x"
    by (simp add: eval_nat_numeral)
  moreover have "((525 / 1000) * (525 / 1000)) * ((525 / 1000) * (525 / 1000)) * x \<le> (8 / 100) * x"
    using pos by (intro mult_right_mono) auto
  ultimately have c5: "x ^ 5 \<le> (8 / 100) * x"
    by linarith
  show ?thesis
    using q c3 c5 by (simp add: x_def)
qed

lemma pi_bounds: "3126 / 1000 \<le> pi \<and> pi \<le> 315 / 100"
  using pi_sixth_lower pi_sixth_upper by simp

subsection \<open>The range of atan2, and rounding\<close>

lemma atan2_abs_le_pi: "\<bar>atan2 y x\<bar> \<le> pi"
proof -
  have a: "- (pi / 2) < arctan (y / x)" "arctan (y / x) < pi / 2"
    by (rule arctan_lbound, rule arctan_ubound)
  consider "0 < x" | "x < 0" "0 \<le> y" | "x < 0" "y < 0" | "x = 0"
    by linarith
  then show ?thesis
  proof cases
    case 1
    then show ?thesis using a by (simp add: atan2_def abs_le_iff)
  next
    case 2
    then have "y / x \<le> 0" by (simp add: divide_nonneg_neg)
    then have "arctan (y / x) \<le> 0" by simp
    with 2 a pi_gt_zero show ?thesis by (simp add: atan2_def abs_le_iff; linarith)
  next
    case 3
    then have "0 < y / x" by (simp add: divide_neg_neg)
    then have "0 < arctan (y / x)" by simp
    with 3 a pi_gt_zero show ?thesis by (simp add: atan2_def abs_le_iff; linarith)
  next
    case 4
    with pi_gt_zero show ?thesis by (auto simp: atan2_def abs_le_iff; linarith)
  qed
qed

lemma atan2_abs_le_pi_half: "0 \<le> x \<Longrightarrow> \<bar>atan2 y x\<bar> \<le> pi / 2"
  using arctan_lbound [of "y / x"] arctan_ubound [of "y / x"]
  by (auto simp: atan2_def abs_le_iff)

lemma py_round_nonneg: "0 \<le> x \<Longrightarrow> 0 \<le> py_round x"
  by (simp add: py_round_def Let_def)

lemma py_round_le:
  assumes "x < of_int n + 1 / 2"
  shows "py_round x \<le> n"
proof -
  have le: "\<lfloor>x\<rfloor> \<le> n" using assms by linarith
  show ?thesis
  proof (cases "\<lfloor>x\<rfloor> = n")
    case True
    then have "x - of_int \<lfloor>x\<rfloor> < 1 / 2" using assms by simp
    then show ?thesis using True by (simp add: py_round_def Let_def)
  next
    case False
    with le have "\<lfloor>x\<rfloor> + 1 \<le> n" by simp
    moreover have "py_round x \<le> \<lfloor>x\<rfloor> + 1" by (simp add: py_round_def Let_def)
    ultimately show ?thesis by linarith
  qed
qed

lemma py_round_nearest: "\<bar>of_int (py_round x) - x\<bar> \<le> 1 / 2"
  unfolding py_round_def Let_def by (auto; linarith)

lemma py_round_eqI:
  assumes "of_int n - 1 / 2 < x" and "x < of_int n + 1 / 2"
  shows "py_round x = n"
proof -
  have "\<bar>of_int (py_round x) - x\<bar> \<le> 1 / 2" by (rule py_round_nearest)
  with assms have "of_int (py_round x) < (of_int n + 1 :: real)" "(of_int n - 1 :: real) < of_int (py_round x)"
    by linarith+
  then have "py_round x < n + 1" "n - 1 < py_round x"
    by linarith+
  then show ?thesis by simp
qed

text \<open>The event of the scenario: roll 90, pitch 45.\<close>

lemma derive_ev_scenario: "derive_angles ev_scenario = Inr (90, 45)"
proof -
  have r: "py_round (\<bar>atan2 1 0\<bar> * 573 / 10) = 90"
    by (rule py_round_eqI) (use pi_bounds in \<open>simp_all add: atan2_def\<close>)
  have "arctan (- 1) = - (pi / 4)"
    by (simp add: arctan_minus arctan_one)
  then have "\<bar>atan2 (- 1) 1\<bar> = pi / 4"
    by (simp add: atan2_def)
  then have p: "py_round (\<bar>atan2 (- 1) 1\<bar> * 573 / 10) = 45"
    by (intro py_round_eqI) (use pi_bounds in simp_all)
  show ?thesis
    by (simp add: derive_angles_def ev_scenario_def r p)
qed

subsection \<open>Facts about the tables and the Entry Writer\<close>

lemma same_key_refl [simp]: "same_key it it"
  by (simp add: same_key_def)







subsection \<open>Facts about the risk computation\<close>

lemma has_N_D: "has_N it f \<Longrightarrow> it f = Some (N (attr_num it f))"
  by (auto simp: has_N_def attr_num_def split: option.splits attr.splits)

lemma k_item_ok: "entry_ok it \<Longrightarrow> k_item it = Inr (Dec (spec_k_item it))"
  by (simp add: entry_ok_def k_item_def spec_k_item_def spec_k_def has_N_D)

lemma k_event_num:
  assumes "event ''soil'' = Some soil" and "to_float soil = Inr soil_cur"
  shows "k_event event roll pitch = Inr (spec_k soil_cur (of_int roll) (of_int pitch))"
  using assms by (simp add: k_event_def truediv_json_def spec_k_def)

lemma entry_ok_created:
  "entry_ok it \<Longrightarrow> has_created (\<lambda>a. True) it \<and> has_created is_num it"
  by (auto simp: entry_ok_def has_N_def has_created_def split: option.splits attr.splits)

lemma sort_created_ok:
  assumes "list_all entry_ok array"
  shows "sort_created array = Inr (sort_key created_num array)"
proof -
  have a: "list_all (has_created (\<lambda>a. True)) array" "list_all (has_created is_num) array"
    using assms by (auto simp: list_all_iff entry_ok_created)
  have "length array < 2 \<Longrightarrow> sort_key created_num array = array"
    by (cases array) (auto simp: less_Suc_eq numeral_2_eq_2)
  with a show ?thesis
    by (simp add: sort_created_def)
qed

lemma risk_of_sample_computed:
  assumes "3 \<le> length array" and "list_all entry_ok array"
    and "event ''soil'' = Some soil" and "to_float soil = Inr soil_cur"
  shows "risk_of_sample event roll pitch array =
           Inr (\<bar>spec_k_item (sort_key created_num array ! 0)
                  - spec_k_item (sort_key created_num array ! 1)\<bar>
                * spec_k soil_cur (of_int roll) (of_int pitch))"
proof -
  let ?sorted = "sort_key created_num array"
  have "length ?sorted = length array"
    by simp
  with assms(1) have l: "0 < length ?sorted" "1 < length ?sorted"
    by linarith+
  have "?sorted ! 0 \<in> set ?sorted"
    using l(1) by (rule nth_mem)
  moreover have "?sorted ! 1 \<in> set ?sorted"
    using l(2) by (rule nth_mem)
  ultimately have "?sorted ! 0 \<in> set array" "?sorted ! 1 \<in> set array"
    by simp_all
  then have "entry_ok (?sorted ! 0)" "entry_ok (?sorted ! 1)"
    using assms(2) by (auto simp: list_all_iff)
  then have k: "k_item (?sorted ! 0) = Inr (Dec (spec_k_item (?sorted ! 0)))"
               "k_item (?sorted ! 1) = Inr (Dec (spec_k_item (?sorted ! 1)))"
    by (simp_all add: k_item_ok)
  show ?thesis
    using assms(1)
    by (simp add: risk_of_sample_def sort_created_ok [OF assms(2)] k
        k_event_num [where event = event, OF assms(3,4)] del: One_nat_def)
qed

lemma risk_of_sample_nonneg:
  assumes "risk_of_sample event roll pitch array = Inr r"
    and "k_event event roll pitch = Inr k" and "0 \<le> k"
  shows "0 \<le> r"
proof (cases "2 < length array")
  case True
  with assms(1,2) obtain diff where "mul_decimal (num_abs diff) k = Inr r"
    by (auto simp: risk_of_sample_def rbind_eq_Inr)
  with assms(3) show ?thesis
    by (cases diff) auto
next
  case False
  with assms(1) show ?thesis by (simp add: risk_of_sample_def)
qed

subsection \<open>The end-to-end scenario of the specification\<close>

text \<open>
  Device \<open>D1\<close> has three stored readings; the event of the scenario arrives at time 4.
  Its entry is appended, the scan returns all four entries, the two earliest are \<open>u1\<close> and
  \<open>u2\<close>, and the risk factor is \<open>1903643 / 12558348\<close>, about 0.1516.
\<close>

lemma insert_scenario: "insert_entry ev_scenario 90 45 4 st_three = Inr st_four"
  by (simp add: insert_entry_def ev_scenario_def st_four_def entry_scenario_def st_three_def
      put_item_def same_key_def ok_entry_def)

lemma scan_four: "scan (entries st_four) (S ''D1'') = entries st_four"
  by (simp add: scan_def st_four_def st_three_def entry_scenario_def matches_def ok_entry_def)

lemma entry_ok_ok_entry: "entry_ok (ok_entry u d soil roll pitch created)"
  by (simp add: entry_ok_def has_N_def ok_entry_def)

lemma entry_ok_scenario: "entry_ok entry_scenario"
  by (simp add: entry_ok_def has_N_def entry_scenario_def)

lemma entries_four_ok: "list_all entry_ok (entries st_four)"
  by (simp add: st_four_def st_three_def entry_ok_ok_entry entry_ok_scenario)

lemma created_ok_entry [simp]: "created_num (ok_entry u d soil roll pitch created) = created"
  by (simp add: created_num_def ok_entry_def)

lemma created_scenario [simp]: "created_num entry_scenario = 4"
  by (simp add: created_num_def entry_scenario_def)

lemma sort_four:
  "sort_key created_num (entries st_four) =
     [ok_entry ''u1'' ''D1'' 100 10 5 1, ok_entry ''u2'' ''D1'' 200 20 10 2,
      ok_entry ''u3'' ''D1'' 900 170 80 3, entry_scenario]"
  by (simp add: st_four_def st_three_def)

lemma spec_k_ok_entry [simp]:
  "spec_k_item (ok_entry u d soil roll pitch created) = spec_k soil roll pitch"
  by (simp add: spec_k_item_def attr_num_def ok_entry_def)

lemma risk_scenario:
  "\<bar>spec_k_item (sort_key created_num (entries st_four) ! 0)
     - spec_k_item (sort_key created_num (entries st_four) ! 1)\<bar> * spec_k 500 90 45
   = 1903643 / 12558348"
  by (simp add: sort_four spec_k_def)


lemma ev_scenario_fields:
  "ev_scenario ''status'' = Some (JInt 0)" "ev_scenario ''deviceID'' = Some (JStr ''D1'')"
  "ev_scenario ''soil'' = Some (JInt 500)" "ev_scenario ''entryUUID'' = Some (JStr ''u4'')"
  by (simp_all add: ev_scenario_def)

lemma sample_four:
  "3 \<le> length (scan (entries st_four) (S ''D1''))"
  "list_all entry_ok (scan (entries st_four) (S ''D1''))"
  by (simp_all add: scan_four entries_four_ok) (simp add: st_four_def st_three_def)

section \<open>The claims\<close>

subsection \<open>Insufficient history\<close>

text \<open>
  C2, as stated, fails. With two matching prior entries of device \<open>D1\<close> in the table, the
  handler first inserts the event's own entry; the scan then returns three entries and the
  risk factor is computed from them, and is not 0.
\<close>

theorem two_prior_entries_counterexample:
  "length (filter (matches (S ''D1'')) (entries st_two)) = 2
   \<and> snd (lambda_handler 3 (ev_ok ''u3'') st_two) = None
   \<and> device_attr (fst (lambda_handler 3 (ev_ok ''u3'') st_two)) (S ''D1'') ''riskFactor''
       = Some (N (235250 / 3139587))
   \<and> device_attr (fst (lambda_handler 3 (ev_ok ''u3'') st_two)) (S ''D1'') ''riskFactor''
       \<noteq> Some (N 0)"
proof -
  let ?new = "[''entryUUID'' \<mapsto> S ''u3'', ''status'' \<mapsto> N 0, ''deviceID'' \<mapsto> S ''D1'',
      ''accl_x'' \<mapsto> N 0, ''accl_y'' \<mapsto> N 1, ''accl_z'' \<mapsto> N 0,
      ''gyro_x'' \<mapsto> N 0, ''gyro_y'' \<mapsto> N 0, ''gyro_z'' \<mapsto> N 0,
      ''roll'' \<mapsto> N 0, ''pitch'' \<mapsto> N 0, ''rain'' \<mapsto> N 0, ''soil'' \<mapsto> N 500,
      ''createdDate'' \<mapsto> N 3]"
  let ?s1 = "st_two\<lparr>entries := entries st_two @ [?new]\<rparr>"
  have a: "length (filter (matches (S ''D1'')) (entries st_two)) = 2"
    by (simp add: st_two_def matches_def ok_entry_def)
  have i: "insert_entry (ev_ok ''u3'') 0 0 3 st_two = Inr ?s1"
    by (simp add: insert_entry_def ev_ok_def st_two_def put_item_def same_key_def ok_entry_def)
  have sc: "scan (entries ?s1) (S ''D1'') = entries st_two @ [?new]"
    by (simp add: scan_def st_two_def matches_def ok_entry_def)
  have so: "sort_created (entries st_two @ [?new]) = Inr (entries st_two @ [?new])"
    by (simp add: sort_created_def st_two_def has_created_def created_num_def ok_entry_def)
  have k1: "k_item (ok_entry ''u1'' ''D1'' 100 10 5 1) = Inr (Dec (100 / 1023 + 1 / 18))"
    by (simp add: k_item_def ok_entry_def)
  have k2: "k_item (ok_entry ''u2'' ''D1'' 200 20 10 2) = Inr (Dec (200 / 1023 + 1 / 9))"
    by (simp add: k_item_def ok_entry_def)
  have k: "k_event (ev_ok ''u3'') 0 0 = Inr (500 / 1023)"
    by (simp add: k_event_def ev_ok_def truediv_json_def)
  have r: "risk_of_sample (ev_ok ''u3'') 0 0 (entries st_two @ [?new]) = Inr (235250 / 3139587)"
    by (simp add: risk_of_sample_def so k) (simp add: st_two_def k1 k2)
  have c: "calculate_riskfactor (ev_ok ''u3'') 0 0 3 ?s1 =
             Inr (?s1\<lparr>devices := update_item (S ''D1'') (N (235250 / 3139587)) (N 3) (devices ?s1)\<rparr>)"
  proof -
    have "calculate_riskfactor (ev_ok ''u3'') 0 0 3 ?s1 =
            rbind (risk_of_sample (ev_ok ''u3'') 0 0 (scan (entries ?s1) (S ''D1''))) (\<lambda>risk_factor.
              Inr (?s1\<lparr>devices := update_item (S ''D1'') (N risk_factor) (N (of_int 3)) (devices ?s1)\<rparr>))"
      by (rule calculate_riskfactor_ok [where st = "JInt 0" and device_id = "JStr ''D1''"])
         (simp_all add: ev_ok_def)
    then show ?thesis
      unfolding sc r by simp
  qed
  have h: "lambda_handler 3 (ev_ok ''u3'') st_two =
             (?s1\<lparr>devices := update_item (S ''D1'') (N (235250 / 3139587)) (N 3) (devices ?s1)\<rparr>, None)"
    by (simp add: lambda_handler_def derive_ev_ok i c)
  show ?thesis
    unfolding h using a by (simp add: device_attr_def update_item_def)
qed

text \<open>
  C2, amended. For a status-OK event, if the retrieval step (which runs after the event's
  own entry has been inserted and may return it) yields fewer than 3 entries, the Risk
  Aggregator upserts the device row with \<open>riskFactor = 0\<close> and \<open>lastUpdated = timestamp\<close>,
  whatever the roll, the pitch and the soil value of the event are.
\<close>

theorem insufficient_sample_resets_risk:
  assumes "event ''status'' = Some st" and "py_eq_int st 0"
    and "event ''deviceID'' = Some device_id" and "serialize device_id = Inr dev"
    and "length (scan (entries s) dev) < 3"
  shows "calculate_riskfactor event roll pitch timestamp s =
           Inr (s\<lparr>devices := update_item dev (N 0) (N (of_int timestamp)) (devices s)\<rparr>)
       \<and> device_attr (s\<lparr>devices := update_item dev (N 0) (N (of_int timestamp)) (devices s)\<rparr>)
           dev ''riskFactor'' = Some (N 0)
       \<and> device_attr (s\<lparr>devices := update_item dev (N 0) (N (of_int timestamp)) (devices s)\<rparr>)
           dev ''lastUpdated'' = Some (N (of_int timestamp))"
  using assms
  by (simp add: calculate_riskfactor_def risk_of_sample_short device_attr_def update_item_def)

theorem insufficient_sample_witness:
  "calculate_riskfactor (ev_ok ''u2'') 170 80 7 st_one =
     Inr (st_one\<lparr>devices := update_item (S ''D1'') (N 0) (N 7) (devices st_one)\<rparr>)"
  using insufficient_sample_resets_risk
    [of "ev_ok ''u2''" "JInt 0" "JStr ''D1''" "S ''D1''" st_one 170 80 7]
  by (simp add: ev_ok_def st_one_def scan_def)

subsection \<open>Sensor errors\<close>

text \<open>
  C5. For an event with status -1, the devices table after the invocation is the devices
  table before it. When the invocation completes, the entries table has received one
  \<^verbatim>\<open>put_item\<close> of an item with exactly the fields \<open>entryUUID\<close>, \<open>status\<close>, \<open>deviceID\<close> and
  \<open>createdDate\<close>; when it raises, nothing was written.
\<close>

theorem sensor_error_event:
  assumes "event ''status'' = Some st" and "py_eq_int st (- 1)"
  shows "devices (fst (lambda_handler epochtime event s)) = devices s
       \<and> (snd (lambda_handler epochtime event s) = None \<longrightarrow>
            (\<exists>uuid dev a_uuid a_st a_dev it.
               event ''entryUUID'' = Some uuid \<and> event ''deviceID'' = Some dev
             \<and> serialize uuid = Inr a_uuid \<and> serialize st = Inr a_st \<and> serialize dev = Inr a_dev
             \<and> it = [''entryUUID'' \<mapsto> a_uuid, ''status'' \<mapsto> a_st, ''deviceID'' \<mapsto> a_dev,
                     ''createdDate'' \<mapsto> N (of_int epochtime)]
             \<and> dom it = {''entryUUID'', ''status'', ''deviceID'', ''createdDate''}
             \<and> entries (fst (lambda_handler epochtime event s)) = put_item it (entries s)))
       \<and> (snd (lambda_handler epochtime event s) \<noteq> None \<longrightarrow>
            fst (lambda_handler epochtime event s) = s)"
proof -
  have n0: "\<not> py_eq_int st 0"
    using assms(2) py_eq_int_unique [of st "- 1" 0] by auto
  show ?thesis
  proof (cases "derive_angles event")
    case (Inl e)
    then show ?thesis by (simp add: lambda_handler_def)
  next
    case (Inr rp)
    obtain roll pitch where rp: "rp = (roll, pitch)" by (cases rp)
    show ?thesis
    proof (cases "insert_entry event roll pitch epochtime s")
      case (Inl e)
      with Inr rp show ?thesis by (simp add: lambda_handler_def)
    next
      case ins: (Inr s1)
      have c: "calculate_riskfactor event roll pitch epochtime s1 = Inr s1"
        using assms(1) n0 by (rule calculate_riskfactor_not_ok)
      have h: "lambda_handler epochtime event s = (s1, None)"
        using Inr rp ins c by (simp add: lambda_handler_def)
      from insert_entry_sensor_error [OF assms ins] h show ?thesis
        by auto
    qed
  qed
qed

theorem sensor_error_event_witness:
  "devices (fst (lambda_handler 9 ev_err st_dev)) = devices st_dev
   \<and> entries (fst (lambda_handler 9 ev_err st_dev)) =
       [[''entryUUID'' \<mapsto> S ''u7'', ''status'' \<mapsto> N (- 1), ''deviceID'' \<mapsto> S ''D1'',
         ''createdDate'' \<mapsto> N 9]]"
  using sensor_error_event [of ev_err "JInt (- 1)" 9 st_dev] handler_ev_err
  by (auto simp: ev_err_def st_dev_def put_item_def)

subsection \<open>Malformed accelerometer fields\<close>



subsection \<open>Unknown status values\<close>

text \<open>
  C10. For an event whose status is neither 0 nor -1, \<^verbatim>\<open>insert_entry\<close> and
  \<^verbatim>\<open>calculate_riskfactor\<close> return without a write, and the invocation leaves both tables
  as they were.
\<close>

theorem unknown_status_writes_nothing:
  assumes "event ''status'' = Some st" and "\<not> py_eq_int st 0" and "\<not> py_eq_int st (- 1)"
  shows "insert_entry event roll pitch timestamp s = Inr s
       \<and> calculate_riskfactor event roll pitch timestamp s = Inr s
       \<and> fst (lambda_handler epochtime event s) = s"
proof -
  have i: "\<And>r p t. insert_entry event r p t s = Inr s"
    using assms by (simp add: insert_entry_def)
  have c: "\<And>r p t. calculate_riskfactor event r p t s = Inr s"
    using assms by (simp add: calculate_riskfactor_def)
  have "fst (lambda_handler epochtime event s) = s"
    by (simp add: lambda_handler_def i c split: sum.split prod.split)
  with i c show ?thesis by simp
qed

theorem unknown_status_witness:
  "insert_entry ev_unknown 0 0 7 st_dev = Inr st_dev
   \<and> calculate_riskfactor ev_unknown 0 0 7 st_dev = Inr st_dev
   \<and> fst (lambda_handler 7 ev_unknown st_dev) = st_dev"
  by (rule unknown_status_writes_nothing [where st = "JInt 5"]) (simp_all add: ev_unknown_def)

subsection \<open>The derived angles\<close>



text \<open>
  C4. Whenever the angle computation succeeds, the roll is between 0 and 180 and the pitch
  is between 0 and 90.
\<close>

theorem derived_angles_in_range:
  assumes "derive_angles event = Inr (roll, pitch)"
  shows "0 \<le> roll \<and> roll \<le> 180 \<and> 0 \<le> pitch \<and> pitch \<le> 90"
proof -
  from derive_angles_InrD [OF assms] obtain x y z where
    r: "roll = py_round (\<bar>atan2 y z\<bar> * 57.3)" and
    p: "pitch = py_round (\<bar>atan2 (- x) (sqrt (y * y + z * z))\<bar> * 57.3)"
    by blast
  have "\<bar>atan2 y z\<bar> * 57.3 \<le> pi * 57.3"
    using atan2_abs_le_pi [of y z] by simp
  then have "\<bar>atan2 y z\<bar> * 57.3 < of_int 180 + 1 / 2"
    using pi_bounds by simp
  then have r1: "roll \<le> 180" unfolding r by (rule py_round_le)
  have "\<bar>atan2 (- x) (sqrt (y * y + z * z))\<bar> \<le> pi / 2"
    by (rule atan2_abs_le_pi_half) simp
  then have "\<bar>atan2 (- x) (sqrt (y * y + z * z))\<bar> * 57.3 < of_int 90 + 1 / 2"
    using pi_bounds by simp
  then have p1: "pitch \<le> 90" unfolding p by (rule py_round_le)
  have "0 \<le> roll" "0 \<le> pitch"
    unfolding r p by (rule py_round_nonneg, simp)+
  with r1 p1 show ?thesis by simp
qed

theorem derived_angles_witness:
  "derive_angles ev_scenario = Inr (90, 45)
   \<and> (0::int) \<le> 90 \<and> (90::int) \<le> 180 \<and> (0::int) \<le> 45 \<and> (45::int) \<le> 90"
  using derived_angles_in_range [OF derive_ev_scenario] derive_ev_scenario by simp

subsection \<open>The risk factor\<close>

text \<open>
  C1. For a status-OK event whose retrieval step yields at least 3 entries (with numeric
  timestamp, soil, roll and pitch), the sample is sorted ascending by \<open>createdDate\<close> (the
  sorted list is a permutation of the sample, in ascending order), and the stored risk
  factor is \<open>|k_0 - k_1| * k_cur\<close>: \<open>k_0\<close> and \<open>k_1\<close> by the formula of the specification
  from the first two entries of the sorted sample, \<open>k_cur\<close> by the same formula from the
  soil value of the incoming event and the roll and pitch handed to the Risk Aggregator,
  which in the handler are the angles derived from that event.
\<close>

theorem risk_factor_formula:
  assumes "event ''status'' = Some st" and "py_eq_int st 0"
    and "event ''deviceID'' = Some device_id" and "serialize device_id = Inr dev"
    and "event ''soil'' = Some soil" and "to_float soil = Inr soil_cur"
    and "3 \<le> length (scan (entries s) dev)"
    and "list_all entry_ok (scan (entries s) dev)"
  shows "mset (sort_key created_num (scan (entries s) dev)) = mset (scan (entries s) dev)
       \<and> sorted (map created_num (sort_key created_num (scan (entries s) dev)))
       \<and> calculate_riskfactor event roll pitch timestamp s =
           Inr (s\<lparr>devices := update_item dev
                  (N (\<bar>spec_k_item (sort_key created_num (scan (entries s) dev) ! 0)
                        - spec_k_item (sort_key created_num (scan (entries s) dev) ! 1)\<bar>
                      * spec_k soil_cur (of_int roll) (of_int pitch)))
                  (N (of_int timestamp)) (devices s)\<rparr>)
       \<and> (derive_angles event = Inr (roll, pitch)
               \<and> insert_entry event roll pitch timestamp s0 = Inr s \<longrightarrow>
             lambda_handler timestamp event s0 =
               (s\<lparr>devices := update_item dev
                  (N (\<bar>spec_k_item (sort_key created_num (scan (entries s) dev) ! 0)
                        - spec_k_item (sort_key created_num (scan (entries s) dev) ! 1)\<bar>
                      * spec_k soil_cur (of_int roll) (of_int pitch)))
                  (N (of_int timestamp)) (devices s)\<rparr>, None))"
proof -
  have c: "calculate_riskfactor event roll pitch timestamp s =
           Inr (s\<lparr>devices := update_item dev
                  (N (\<bar>spec_k_item (sort_key created_num (scan (entries s) dev) ! 0)
                        - spec_k_item (sort_key created_num (scan (entries s) dev) ! 1)\<bar>
                      * spec_k soil_cur (of_int roll) (of_int pitch)))
                  (N (of_int timestamp)) (devices s)\<rparr>)"
    by (simp add: calculate_riskfactor_ok [OF assms(1-4)]
        risk_of_sample_computed [where event = event, OF assms(7,8,5,6)])
  then show ?thesis
    by (simp add: lambda_handler_def)
qed

theorem risk_factor_formula_witness:
  "lambda_handler 4 ev_scenario st_three =
     (st_four\<lparr>devices := update_item (S ''D1'') (N (1903643 / 12558348)) (N 4) (devices st_four)\<rparr>,
      None)"
proof -
  note t = risk_factor_formula [where event = ev_scenario and st = "JInt 0"
      and device_id = "JStr ''D1''" and dev = "S ''D1''" and soil = "JInt 500" and soil_cur = 500
      and s = st_four and roll = 90 and pitch = 45 and timestamp = 4 and ?s0.0 = st_three,
      OF ev_scenario_fields(1) _ ev_scenario_fields(2) _ ev_scenario_fields(3) _ sample_four]
  have "lambda_handler 4 ev_scenario st_three =
     (st_four\<lparr>devices := update_item (S ''D1'')
        (N (\<bar>spec_k_item (sort_key created_num (scan (entries st_four) (S ''D1'')) ! 0)
              - spec_k_item (sort_key created_num (scan (entries st_four) (S ''D1'')) ! 1)\<bar>
            * spec_k 500 (of_int 90) (of_int 45)))
        (N (of_int 4)) (devices st_four)\<rparr>, None)"
    using t derive_ev_scenario insert_scenario by simp
  then show ?thesis
    unfolding scan_four using risk_scenario by (simp del: One_nat_def)
qed

text \<open>
  C6. For a status-OK event with a soil value that is not negative and roll and pitch that
  are not negative, every completed run of the Risk Aggregator leaves the device row with a
  \<open>riskFactor\<close> that is a number and is not negative; and the run completes when the
  sample has fewer than 3 entries or consists of well-formed entries.
\<close>

theorem risk_factor_nonneg:
  assumes "event ''status'' = Some st" and "py_eq_int st 0"
    and "event ''deviceID'' = Some device_id" and "serialize device_id = Inr dev"
    and "event ''soil'' = Some soil" and "to_float soil = Inr soil_cur"
    and "0 \<le> soil_cur" and "0 \<le> roll" and "0 \<le> pitch"
  shows "(\<forall>s'. calculate_riskfactor event roll pitch timestamp s = Inr s' \<longrightarrow>
            (\<exists>r. device_attr s' dev ''riskFactor'' = Some (N r) \<and> 0 \<le> r))
       \<and> (length (scan (entries s) dev) < 3 \<or> list_all entry_ok (scan (entries s) dev) \<longrightarrow>
            (\<exists>s'. calculate_riskfactor event roll pitch timestamp s = Inr s'))"
proof -
  have k: "k_event event roll pitch = Inr (spec_k soil_cur (of_int roll) (of_int pitch))"
    using assms(5,6) by (rule k_event_num)
  have k0: "0 \<le> spec_k soil_cur (of_int roll) (of_int pitch)"
    using assms(7-9) by (simp add: spec_k_def)
  have c: "calculate_riskfactor event roll pitch timestamp s =
           rbind (risk_of_sample event roll pitch (scan (entries s) dev)) (\<lambda>risk_factor.
             Inr (s\<lparr>devices := update_item dev (N risk_factor) (N (of_int timestamp)) (devices s)\<rparr>))"
    by (rule calculate_riskfactor_ok [OF assms(1-4)])
  have 1: "\<exists>r. device_attr s' dev ''riskFactor'' = Some (N r) \<and> 0 \<le> r"
    if "calculate_riskfactor event roll pitch timestamp s = Inr s'" for s'
  proof -
    from that c obtain r where r: "risk_of_sample event roll pitch (scan (entries s) dev) = Inr r"
      and s': "s' = s\<lparr>devices := update_item dev (N r) (N (of_int timestamp)) (devices s)\<rparr>"
      by (auto simp: rbind_eq_Inr)
    have "0 \<le> r" by (rule risk_of_sample_nonneg [OF r k k0])
    then show ?thesis
      by (simp add: s' device_attr_def update_item_def)
  qed
  have 2: "\<exists>s'. calculate_riskfactor event roll pitch timestamp s = Inr s'"
    if "length (scan (entries s) dev) < 3 \<or> list_all entry_ok (scan (entries s) dev)"
  proof (cases "length (scan (entries s) dev) < 3")
    case True
    then show ?thesis by (simp add: c risk_of_sample_short)
  next
    case False
    with that have "3 \<le> length (scan (entries s) dev)" "list_all entry_ok (scan (entries s) dev)"
      by auto
    then show ?thesis
      by (simp add: c risk_of_sample_computed [where event = event, OF _ _ assms(5,6)])
  qed
  from 1 2 show ?thesis by blast
qed

theorem risk_factor_nonneg_witness:
  "\<exists>s' r. calculate_riskfactor ev_scenario 90 45 4 st_four = Inr s'
        \<and> device_attr s' (S ''D1'') ''riskFactor'' = Some (N r) \<and> 0 \<le> r"
proof -
  have "(\<forall>s'. calculate_riskfactor ev_scenario 90 45 4 st_four = Inr s' \<longrightarrow>
            (\<exists>r. device_attr s' (S ''D1'') ''riskFactor'' = Some (N r) \<and> 0 \<le> r))
       \<and> (length (scan (entries st_four) (S ''D1'')) < 3
            \<or> list_all entry_ok (scan (entries st_four) (S ''D1'')) \<longrightarrow>
            (\<exists>s'. calculate_riskfactor ev_scenario 90 45 4 st_four = Inr s'))"
    by (rule risk_factor_nonneg [where st = "JInt 0" and device_id = "JStr ''D1''"
          and soil = "JInt 500" and soil_cur = 500])
       (simp_all add: ev_scenario_def)
  then show ?thesis
    using entries_four_ok by (auto simp: scan_four)
qed

subsection \<open>The frame of the writes\<close>




end
